theory Spec2Isabelle
  imports Main
begin

section \<open>Data model\<close>

text \<open>
  The two tables of the relational store, one record per row. A row's \<open>id\<close> column is
  the field \<open>meal_id\<close> (\<open>usr_id\<close> for a user), since \<open>id\<close> is HOL's identity function,
  and a row's \<open>name\<close> column is \<open>meal_name\<close> (\<open>usr_name\<close>). \<open>date\<close> is the integer the
  handlers store: \<open>date.getTime()\<close>, epoch milliseconds.
\<close>

record meal =
  meal_id :: string
  meal_name :: string
  description :: string
  is_on_diet :: bool
  date :: int
  user_id :: string

record user =
  usr_id :: string
  usr_name :: string
  email :: string
  session_id :: string

text \<open>
  The store is the two tables, each a list of rows in insertion order, and the list of
  the queries issued against it so far, so that "no query was issued" is a property of
  the state.
\<close>

datatype table = T_users | T_meals

datatype verb = Q_first | Q_select | Q_count | Q_insert | Q_update | Q_delete

datatype query = Query table verb

record store =
  users :: "user list"
  meals :: "meal list"
  issued :: "query list"

section \<open>The query builder\<close>

text \<open>
  Each \<open>knex\<close> call of the handlers, as a function of the store. A \<open>where\<close> clause is
  the predicate on rows it denotes. Every call records itself in \<open>issued\<close>.
\<close>

definition issue :: "query \<Rightarrow> store \<Rightarrow> store" where
  "issue q s = s\<lparr>issued := issued s @ [q]\<rparr>"

text \<open>\<open>knex('meals').where(w).first()\<close>: the first matching row, or undefined.\<close>

definition knex_meals_first :: "(meal \<Rightarrow> bool) \<Rightarrow> store \<Rightarrow> meal option \<times> store" where
  "knex_meals_first w s = (find w (meals s), issue (Query T_meals Q_first) s)"

text \<open>\<open>knex('meals').where(w).select()\<close>: the matching rows, in the store's order.\<close>

definition knex_meals_select :: "(meal \<Rightarrow> bool) \<Rightarrow> store \<Rightarrow> meal list \<times> store" where
  "knex_meals_select w s = (filter w (meals s), issue (Query T_meals Q_select) s)"

text \<open>\<open>knex('meals').where(w).count('id', { as: 'total' }).first()\<close>: \<open>id\<close> is never
  null, so the total is the number of matching rows.\<close>

definition knex_meals_count :: "(meal \<Rightarrow> bool) \<Rightarrow> store \<Rightarrow> nat \<times> store" where
  "knex_meals_count w s = (length (filter w (meals s)), issue (Query T_meals Q_count) s)"

text \<open>\<open>knex('meals').where(w).orderBy('date', 'desc')\<close>: the matching rows, latest first.
  Rows of equal date keep the store's order here (SQL leaves their order open).\<close>

definition order_by_date_desc :: "meal list \<Rightarrow> meal list" where
  "order_by_date_desc ms = sort_key (\<lambda>m. - date m) ms"

definition knex_meals_order_by_date_desc :: "(meal \<Rightarrow> bool) \<Rightarrow> store \<Rightarrow> meal list \<times> store" where
  "knex_meals_order_by_date_desc w s =
     (order_by_date_desc (filter w (meals s)), issue (Query T_meals Q_select) s)"

text \<open>\<open>knex('meals').insert(row)\<close>.\<close>

definition knex_meals_insert :: "meal \<Rightarrow> store \<Rightarrow> store" where
  "knex_meals_insert row s = issue (Query T_meals Q_insert) (s\<lparr>meals := meals s @ [row]\<rparr>)"

text \<open>\<open>knex('meals').where(w).update({name, description, is_on_diet, date})\<close>.\<close>

definition knex_meals_update ::
  "(meal \<Rightarrow> bool) \<Rightarrow> string \<Rightarrow> string \<Rightarrow> bool \<Rightarrow> int \<Rightarrow> store \<Rightarrow> store" where
  "knex_meals_update w n d b t s =
     issue (Query T_meals Q_update)
       (s\<lparr>meals := map (\<lambda>m. if w m
                               then m\<lparr>meal_name := n, description := d, is_on_diet := b, date := t\<rparr>
                               else m) (meals s)\<rparr>)"

text \<open>\<open>knex('meals').where(w).delete()\<close>.\<close>

definition knex_meals_delete :: "(meal \<Rightarrow> bool) \<Rightarrow> store \<Rightarrow> store" where
  "knex_meals_delete w s =
     issue (Query T_meals Q_delete) (s\<lparr>meals := filter (\<lambda>m. \<not> w m) (meals s)\<rparr>)"

text \<open>\<open>knex('users').where(w).select()\<close>, \<open>knex('users').where(w).first()\<close> and
  \<open>knex('users').insert(row)\<close>.\<close>

definition knex_users_select :: "(user \<Rightarrow> bool) \<Rightarrow> store \<Rightarrow> user list \<times> store" where
  "knex_users_select w s = (filter w (users s), issue (Query T_users Q_select) s)"

definition knex_users_first :: "(user \<Rightarrow> bool) \<Rightarrow> store \<Rightarrow> user option \<times> store" where
  "knex_users_first w s = (find w (users s), issue (Query T_users Q_first) s)"

definition knex_users_insert :: "user \<Rightarrow> store \<Rightarrow> store" where
  "knex_users_insert row s = issue (Query T_users Q_insert) (s\<lparr>users := users s @ [row]\<rparr>)"

section \<open>Requests, schemas and replies\<close>

text \<open>
  A request body is a parsed JSON value, or absent. The type of JSON numbers is left
  open (\<open>'n\<close>): no schema below reads a number except through the date coercion, which
  is a parameter of the handlers. An object is the list of its properties.
\<close>

datatype 'n json =
    JNull
  | JBool bool
  | JNum 'n
  | JStr string
  | JArr "'n json list"
  | JObj "(string \<times> 'n json) list"

text \<open>
  What a handler can throw: a \<open>ZodError\<close> from a schema, carrying the path of each issue
  (the empty path when the body itself is not an object), or the query builder's error
  for a \<open>where\<close> value that is undefined, carrying the column.
\<close>

datatype error = ZodError "string list list" | UndefinedBinding string

text \<open>\<open>z.string()\<close> and \<open>z.boolean()\<close> on the value of a property (\<open>None\<close>: the property
  is absent, the value is undefined).\<close>

fun z_string :: "'n json option \<Rightarrow> string option" where
  "z_string (Some (JStr s)) = Some s"
| "z_string _ = None"

fun z_boolean :: "'n json option \<Rightarrow> bool option" where
  "z_boolean (Some (JBool b)) = Some b"
| "z_boolean _ = None"

text \<open>The issue of a property whose schema rejected it.\<close>

definition issue_at :: "string \<Rightarrow> 'a option \<Rightarrow> string list list" where
  "issue_at key v = (case v of None \<Rightarrow> [[key]] | Some _ \<Rightarrow> [])"

text \<open>
  \<open>createMealBodySchema.parse\<close>. The parameter \<open>to_time\<close> is \<open>z.coerce.date()\<close>: it gives
  \<open>new Date(v)\<close> for the value \<open>v\<close> of the property as the time value of that Date, and
  \<open>None\<close> when the Date is invalid. A parsed Date is held as its time value, so
  \<open>date.getTime()\<close> is the parsed component itself.
\<close>

definition createMealBodySchema ::
  "('n json option \<Rightarrow> int option) \<Rightarrow> 'n json option
     \<Rightarrow> error + (string \<times> string \<times> bool \<times> int)" where
  "createMealBodySchema to_time body =
     (case body of
        Some (JObj props) \<Rightarrow>
          (let name = z_string (map_of props ''name'');
               description = z_string (map_of props ''description'');
               isOnDiet = z_boolean (map_of props ''isOnDiet'');
               date = to_time (map_of props ''date'')
           in case (name, description, isOnDiet, date) of
                (Some n, Some d, Some b, Some t) \<Rightarrow> Inr (n, d, b, t)
              | _ \<Rightarrow> Inl (ZodError (issue_at ''name'' name @ issue_at ''description'' description
                                    @ issue_at ''isOnDiet'' isOnDiet @ issue_at ''date'' date)))
      | _ \<Rightarrow> Inl (ZodError [[]]))"

text \<open>\<open>putMealBodySchema\<close> is the same object schema, declared again in the PUT handler.\<close>

definition putMealBodySchema ::
  "('n json option \<Rightarrow> int option) \<Rightarrow> 'n json option
     \<Rightarrow> error + (string \<times> string \<times> bool \<times> int)" where
  "putMealBodySchema to_time body =
     (case body of
        Some (JObj props) \<Rightarrow>
          (let name = z_string (map_of props ''name'');
               description = z_string (map_of props ''description'');
               isOnDiet = z_boolean (map_of props ''isOnDiet'');
               date = to_time (map_of props ''date'')
           in case (name, description, isOnDiet, date) of
                (Some n, Some d, Some b, Some t) \<Rightarrow> Inr (n, d, b, t)
              | _ \<Rightarrow> Inl (ZodError (issue_at ''name'' name @ issue_at ''description'' description
                                    @ issue_at ''isOnDiet'' isOnDiet @ issue_at ''date'' date)))
      | _ \<Rightarrow> Inl (ZodError [[]]))"

text \<open>
  The params schemas \<open>z.object({ id: z.string().uuid() })\<close> of the three \<open>/:id\<close> routes.
  The router always supplies \<open>id\<close> as a string; the parameter \<open>is_uuid\<close> is the
  validator's UUID test.
\<close>

definition getMealParamsSchema :: "(string \<Rightarrow> bool) \<Rightarrow> string \<Rightarrow> error + string" where
  "getMealParamsSchema is_uuid id_param =
     (if is_uuid id_param then Inr id_param else Inl (ZodError [[''id'']]))"

definition putMealParamsSchema :: "(string \<Rightarrow> bool) \<Rightarrow> string \<Rightarrow> error + string" where
  "putMealParamsSchema is_uuid id_param =
     (if is_uuid id_param then Inr id_param else Inl (ZodError [[''id'']]))"

definition deleteMealParamsSchema :: "(string \<Rightarrow> bool) \<Rightarrow> string \<Rightarrow> error + string" where
  "deleteMealParamsSchema is_uuid id_param =
     (if is_uuid id_param then Inr id_param else Inl (ZodError [[''id'']]))"

text \<open>\<open>createUserBodySchema.parse\<close>.\<close>

definition createUserBodySchema :: "'n json option \<Rightarrow> error + (string \<times> string)" where
  "createUserBodySchema body =
     (case body of
        Some (JObj props) \<Rightarrow>
          (let name = z_string (map_of props ''name'');
               email = z_string (map_of props ''email'')
           in case (name, email) of
                (Some n, Some e) \<Rightarrow> Inr (n, e)
              | _ \<Rightarrow> Inl (ZodError (issue_at ''name'' name @ issue_at ''email'' email)))
      | _ \<Rightarrow> Inl (ZodError [[]]))"

text \<open>
  The reply object: its status code (200 until set), the cookies set on it, and the
  payload sent.
\<close>

record cookie =
  cookie_name :: string
  cookie_value :: string
  path :: string
  maxAge :: nat

record metrics =
  totalMeals :: nat
  totalMealsOnDiet :: nat
  totalMealsOffDiet :: nat
  bestOnDietSequence :: nat

datatype payload =
    Empty
  | MealsBody "meal list"
  | MetricsBody metrics
  | ErrorBody string
  | MessageBody string
  | UsersBody "user list"

record reply =
  status :: nat
  cookies :: "cookie list"
  payload :: payload

definition reply0 :: reply where
  "reply0 = \<lparr>status = 200, cookies = [], payload = Empty\<rparr>"

text \<open>\<open>reply.status(c).send(p)\<close>.\<close>

definition send :: "nat \<Rightarrow> payload \<Rightarrow> reply \<Rightarrow> reply" where
  "send c p r = r\<lparr>status := c, payload := p\<rparr>"

text \<open>A handler either sends its reply or throws; both leave a reply object and a store.\<close>

datatype outcome = Sent | Threw error

type_synonym handled = "outcome \<times> reply \<times> store"

section \<open>The meals routes\<close>

text \<open>
  Each handler runs after the route's \<open>preHandler\<close>, \<open>checkSessionIdExists\<close>, which is
  not part of this development; \<open>uid\<close> is the \<open>request.user.id\<close> it leaves on the
  request. \<open>fresh_id\<close> is the value \<open>randomUUID()\<close> returns. The logging hook of the
  route group writes to the console only and is left out.
\<close>

text \<open>POST /\<close>

definition post_meal ::
  "('n json option \<Rightarrow> int option) \<Rightarrow> string \<Rightarrow> string \<Rightarrow> 'n json option \<Rightarrow> store \<Rightarrow> handled" where
  "post_meal to_time fresh_id uid body s =
     (case createMealBodySchema to_time body of
        Inl e \<Rightarrow> (Threw e, reply0, s)
      | Inr (name, descr, isOnDiet, date_ms) \<Rightarrow>
          (let s1 = knex_meals_insert \<lparr>meal_id = fresh_id, meal_name = name, description = descr,
                                  is_on_diet = isOnDiet, date = date_ms, user_id = uid\<rparr> s
           in (Sent, send 201 Empty reply0, s1)))"

text \<open>GET /\<close>

definition get_meals :: "string \<Rightarrow> store \<Rightarrow> handled" where
  "get_meals uid s =
     (let (ms, s1) = knex_meals_select (\<lambda>m. user_id m = uid) s
      in (Sent, send 200 (MealsBody ms) reply0, s1))"

text \<open>GET /metrics: the accumulator of the \<open>reduce\<close>, its callback, and the handler.\<close>

record acc =
  bestOnDietSequence :: nat
  currentSequence :: nat

definition reduce_step :: "acc \<Rightarrow> meal \<Rightarrow> acc" where
  "reduce_step a m =
     (let a1 = (if is_on_diet m then a\<lparr>currentSequence := currentSequence a + 1\<rparr>
                else a\<lparr>currentSequence := 0\<rparr>);
          a2 = (if currentSequence a1 > acc.bestOnDietSequence a1
                then a1\<lparr>acc.bestOnDietSequence := currentSequence a1\<rparr>
                else a1)
      in a2)"

definition reduce_meals :: "meal list \<Rightarrow> acc" where
  "reduce_meals ms = foldl reduce_step \<lparr>bestOnDietSequence = 0, currentSequence = 0\<rparr> ms"

definition get_metrics :: "string \<Rightarrow> store \<Rightarrow> handled" where
  "get_metrics uid s =
     (let (mealsOnDiet, s1) = knex_meals_count (\<lambda>m. user_id m = uid \<and> is_on_diet m = True) s;
          (mealsOffDiet, s2) = knex_meals_count (\<lambda>m. user_id m = uid \<and> is_on_diet m = False) s1;
          (ms, s3) = knex_meals_order_by_date_desc (\<lambda>m. user_id m = uid) s2;
          best = acc.bestOnDietSequence (reduce_meals ms)
      in (Sent,
          send 200 (MetricsBody \<lparr>totalMeals = length ms,
                                 totalMealsOnDiet = mealsOnDiet,
                                 totalMealsOffDiet = mealsOffDiet,
                                 bestOnDietSequence = best\<rparr>) reply0,
          s3))"

text \<open>GET /:id\<close>

definition get_meal :: "(string \<Rightarrow> bool) \<Rightarrow> string \<Rightarrow> string \<Rightarrow> store \<Rightarrow> handled" where
  "get_meal is_uuid uid id_param s =
     (case getMealParamsSchema is_uuid id_param of
        Inl e \<Rightarrow> (Threw e, reply0, s)
      | Inr i \<Rightarrow>
          (let (found, s1) = knex_meals_first (\<lambda>m. meal_id m = i) s
           in case found of
                None \<Rightarrow> (Sent, send 404 (ErrorBody ''Meal not found'') reply0, s1)
              | Some _ \<Rightarrow>
                  (let (ms, s2) = knex_meals_select (\<lambda>m. user_id m = uid \<and> meal_id m = i) s1
                   in (Sent, send 200 (MealsBody ms) reply0, s2))))"

text \<open>PUT /:id\<close>

definition put_meal ::
  "(string \<Rightarrow> bool) \<Rightarrow> ('n json option \<Rightarrow> int option) \<Rightarrow> string \<Rightarrow> string \<Rightarrow> 'n json option
     \<Rightarrow> store \<Rightarrow> handled" where
  "put_meal is_uuid to_time uid id_param body s =
     (case putMealParamsSchema is_uuid id_param of
        Inl e \<Rightarrow> (Threw e, reply0, s)
      | Inr i \<Rightarrow>
          (let (found, s1) = knex_meals_first (\<lambda>m. meal_id m = i) s
           in case found of
                None \<Rightarrow> (Sent, send 404 (ErrorBody ''Meal not found'') reply0, s1)
              | Some _ \<Rightarrow>
                  (case putMealBodySchema to_time body of
                     Inl e \<Rightarrow> (Threw e, reply0, s1)
                   | Inr (name, descr, isOnDiet, date_ms) \<Rightarrow>
                       (let s2 = knex_meals_update (\<lambda>m. user_id m = uid \<and> meal_id m = i)
                                   name descr isOnDiet date_ms s1
                        in (Sent, send 200 Empty reply0, s2)))))"

text \<open>DELETE /:id\<close>

definition delete_meal :: "(string \<Rightarrow> bool) \<Rightarrow> string \<Rightarrow> string \<Rightarrow> store \<Rightarrow> handled" where
  "delete_meal is_uuid uid id_param s =
     (case deleteMealParamsSchema is_uuid id_param of
        Inl e \<Rightarrow> (Threw e, reply0, s)
      | Inr i \<Rightarrow>
          (let (found, s1) = knex_meals_first (\<lambda>m. meal_id m = i) s
           in case found of
                None \<Rightarrow> (Sent, send 404 (ErrorBody ''Meal not found'') reply0, s1)
              | Some _ \<Rightarrow>
                  (let s2 = knex_meals_delete (\<lambda>m. user_id m = uid \<and> meal_id m = i) s1
                   in (Sent, send 200 Empty reply0, s2))))"

section \<open>The users routes\<close>

text \<open>
  GET /. \<open>cookie_sessionId\<close> is \<open>request.cookies.sessionId\<close> (\<open>None\<close>: undefined). The
  handler returns \<open>{ users }\<close>, which is sent with the default status.
\<close>

definition get_users :: "string option \<Rightarrow> store \<Rightarrow> handled" where
  "get_users cookie_sessionId s =
     (case cookie_sessionId of
        None \<Rightarrow> (Threw (UndefinedBinding ''session_id''), reply0, s)
      | Some sessionId \<Rightarrow>
          (let (us, s1) = knex_users_select (\<lambda>u. session_id u = sessionId) s
           in (Sent, send 200 (UsersBody us) reply0, s1)))"

text \<open>
  POST /. \<open>cookie_sessionId\<close> is \<open>request.cookies.sessionId\<close> (\<open>None\<close>: undefined);
  \<open>!sessionId\<close> holds of undefined and of the empty string. \<open>fresh_session\<close> and
  \<open>fresh_id\<close> are the values the two \<open>randomUUID()\<close> calls return; the first call is
  made only when \<open>!sessionId\<close>.
\<close>

definition session_cookie :: "string \<Rightarrow> cookie" where
  "session_cookie v =
     \<lparr>cookie_name = ''sessionId'', cookie_value = v, path = ''/'', maxAge = 60 * 60 * 24 * 7\<rparr>"

definition post_user ::
  "string \<Rightarrow> string \<Rightarrow> string option \<Rightarrow> 'n json option \<Rightarrow> store \<Rightarrow> handled" where
  "post_user fresh_session fresh_id cookie_sessionId body s =
     (let (sessionId, r1) =
            (case cookie_sessionId of
               None \<Rightarrow> (fresh_session, reply0\<lparr>cookies := [session_cookie fresh_session]\<rparr>)
             | Some v \<Rightarrow>
                 if v = [] then (fresh_session, reply0\<lparr>cookies := [session_cookie fresh_session]\<rparr>)
                 else (v, reply0))
      in case createUserBodySchema body of
           Inl e \<Rightarrow> (Threw e, r1, s)
         | Inr (name, mail) \<Rightarrow>
             (let (userByEmail, s1) = knex_users_first (\<lambda>u. email u = mail) s
              in case userByEmail of
                   Some _ \<Rightarrow> (Sent, send 400 (MessageBody ''User already exists!'') r1, s1)
                 | None \<Rightarrow>
                     (let s2 = knex_users_insert \<lparr>usr_id = fresh_id, usr_name = name, email = mail,
                                             session_id = sessionId\<rparr> s1
                      in (Sent, send 201 Empty r1, s2))))"

section \<open>The streak as the specification words it\<close>

text \<open>
  The specification's algorithm, over the diet flags alone: a fold from the left with two
  counters, the current streak and the best streak. The current streak goes up by one on
  an on-diet meal and back to zero on an off-diet meal; the best streak is the largest
  current streak seen; the best streak is the result.
\<close>

definition spec_streak_step :: "nat \<times> nat \<Rightarrow> bool \<Rightarrow> nat \<times> nat" where
  "spec_streak_step st on_diet =
     (let current = (if on_diet then fst st + 1 else 0) in (current, max (snd st) current))"

definition spec_bestOnDietSequence :: "bool list \<Rightarrow> nat" where
  "spec_bestOnDietSequence flags = snd (foldl spec_streak_step (0, 0) flags)"

text \<open>
  The metric as the specification defines it, the longest run of consecutive on-diet
  meals: the greatest number of leading on-diet flags over all the places where a run can
  start.
\<close>

fun longest_run :: "bool list \<Rightarrow> nat" where
  "longest_run [] = 0"
| "longest_run (b # bs) = max (length (takeWhile (\<lambda>x. x) (b # bs))) (longest_run bs)"

text \<open>The meals of a user, latest first: the list the metrics handler reduces.\<close>

definition user_meals_desc :: "string \<Rightarrow> store \<Rightarrow> meal list" where
  "user_meals_desc uid s = order_by_date_desc (filter (\<lambda>m. user_id m = uid) (meals s))"

section \<open>Example data\<close>

text \<open>
  A store with two users. Ana's seven meals, read latest first, carry the diet flags
  true, true, false, true, true, true, false; they were not inserted in date order, and
  Bob's two meals lie between them.
\<close>

definition demo_meal :: "string \<Rightarrow> bool \<Rightarrow> int \<Rightarrow> string \<Rightarrow> meal" where
  "demo_meal i b t u =
     \<lparr>meal_id = i, meal_name = ''lunch'', description = ''rice and beans'', is_on_diet = b,
      date = t, user_id = u\<rparr>"

definition demo_store :: store where
  "demo_store =
     \<lparr>users = [\<lparr>usr_id = ''u-ana'', usr_name = ''Ana'', email = ''ana@example.com'',
                session_id = ''s-ana''\<rparr>,
               \<lparr>usr_id = ''u-bob'', usr_name = ''Bob'', email = ''bob@example.com'',
                session_id = ''s-bob''\<rparr>],
      meals = [demo_meal ''3f2b8c1e-0a4d-4e6f-9b7a-1c2d3e4f5a6b'' False 1700000000000 ''u-ana'',
               demo_meal ''7a9c0e2f-5b1d-4c3a-8e6f-0d1c2b3a4f5e'' True 1700000500000 ''u-ana'',
               demo_meal ''0b1c2d3e-4f5a-4b6c-8d7e-9f0a1b2c3d4e'' True 1700000100000 ''u-ana'',
               demo_meal ''c4d5e6f7-a8b9-4c0d-9e1f-2a3b4c5d6e7f'' True 1700000250000 ''u-bob'',
               demo_meal ''11111111-2222-4333-8444-555555555555'' True 1700000300000 ''u-ana'',
               demo_meal ''99999999-8888-4777-a666-555555555555'' False 1700000400000 ''u-ana'',
               demo_meal ''aaaaaaaa-bbbb-4ccc-8ddd-eeeeeeeeeeee'' True 1700000600000 ''u-ana'',
               demo_meal ''12345678-90ab-4cde-8f01-234567890abc'' False 1700000350000 ''u-bob'',
               demo_meal ''deadbeef-0000-4000-8000-00000000cafe'' True 1700000200000 ''u-ana''],
      issued = []\<rparr>"

text \<open>
  Request bodies: a meal payload, a payload no meal schema accepts, a registration under
  an email the store does not hold, and one under Ana's email.
\<close>

definition demo_meal_body :: "int json option" where
  "demo_meal_body =
     Some (JObj [(''name'', JStr ''salad''), (''description'', JStr ''leaves and oil''),
                 (''isOnDiet'', JBool False), (''date'', JNum 1700000999000)])"

definition demo_bad_body :: "int json option" where
  "demo_bad_body = Some (JObj [(''name'', JNum 7), (''isOnDiet'', JStr ''yes'')])"

definition demo_new_user_body :: "int json option" where
  "demo_new_user_body =
     Some (JObj [(''name'', JStr ''Carla''), (''email'', JStr ''carla@example.com'')])"

definition demo_user_body :: "int json option" where
  "demo_user_body =
     Some (JObj [(''name'', JStr ''Ana Again''), (''email'', JStr ''ana@example.com'')])"

text \<open>
  Instances of the two validator parameters, for the examples. The UUID test accepts the
  shape 8-4-4-4-12 of hexadecimal digits. The date coercion knows numbers only, taken as
  integers: \<open>new Date(n)\<close> has the time value \<open>n\<close> when \<open>n\<close> is at most 8.64e15 in absolute
  value, and is invalid beyond.
\<close>

definition hex_digit :: "char \<Rightarrow> bool" where
  "hex_digit c = (c \<in> set ''0123456789abcdefABCDEF'')"

definition uuid_shape :: "string \<Rightarrow> bool" where
  "uuid_shape s =
     (map (\<lambda>c. if hex_digit c then CHR ''0'' else c) s = ''00000000-0000-0000-0000-000000000000'')"

definition date_of_number :: "int json option \<Rightarrow> int option" where
  "date_of_number v =
     (case v of
        Some (JNum n) \<Rightarrow> if \<bar>n\<bar> \<le> 8640000000000000 then Some n else None
      | _ \<Rightarrow> None)"

section \<open>The metrics handler\<close>

text \<open>One step of the handler's \<open>reduce\<close> is one step of the specification's fold.\<close>

lemma reduce_step_spec:
  "(currentSequence (reduce_step a m), acc.bestOnDietSequence (reduce_step a m))
     = spec_streak_step (currentSequence a, acc.bestOnDietSequence a) (is_on_diet m)"
  by (simp add: reduce_step_def spec_streak_step_def Let_def max_def)

lemma foldl_reduce_step_spec:
  "(currentSequence (foldl reduce_step a ms), acc.bestOnDietSequence (foldl reduce_step a ms))
     = foldl spec_streak_step (currentSequence a, acc.bestOnDietSequence a) (map is_on_diet ms)"
proof (induction ms arbitrary: a)
  case Nil
  show ?case by simp
next
  case (Cons m ms)
  have "foldl reduce_step a (m # ms) = foldl reduce_step (reduce_step a m) ms" by simp
  then show ?case using Cons.IH [of "reduce_step a m"] by (simp add: reduce_step_spec)
qed

lemma reduce_meals_spec:
  "acc.bestOnDietSequence (reduce_meals ms) = spec_bestOnDietSequence (map is_on_diet ms)"
  using foldl_reduce_step_spec [of "\<lparr>bestOnDietSequence = 0, currentSequence = 0\<rparr>" ms]
  by (simp add: reduce_meals_def spec_bestOnDietSequence_def prod_eq_iff)

text \<open>What the handler returns, with its three queries run.\<close>

lemma get_metrics_result:
  "get_metrics uid s =
     (Sent,
      \<lparr>status = 200, cookies = [],
       payload = MetricsBody
         \<lparr>totalMeals = length (user_meals_desc uid s),
          totalMealsOnDiet = length (filter (\<lambda>m. user_id m = uid \<and> is_on_diet m) (meals s)),
          totalMealsOffDiet = length (filter (\<lambda>m. user_id m = uid \<and> \<not> is_on_diet m) (meals s)),
          bestOnDietSequence = acc.bestOnDietSequence (reduce_meals (user_meals_desc uid s))\<rparr>\<rparr>,
      s\<lparr>issued := issued s @ [Query T_meals Q_count, Query T_meals Q_count, Query T_meals Q_select]\<rparr>)"
  by (simp add: get_metrics_def knex_meals_count_def knex_meals_order_by_date_desc_def issue_def
      send_def reply0_def user_meals_desc_def)

lemma demo_flags_desc:
  "map is_on_diet (user_meals_desc ''u-ana'' demo_store)
     = [True, True, False, True, True, True, False]"
  by (simp add: user_meals_desc_def demo_store_def demo_meal_def order_by_date_desc_def)

text \<open>
  Claim C1. On every list of meals the handler's \<open>reduce\<close> gives, as its best sequence,
  the result of the specification's two-counter fold over the diet flags of the list.
  So, whatever the store and the user, the \<open>bestOnDietSequence\<close> the metrics handler sends
  is that fold over the user's meals taken latest first; when the flags are true, true,
  false, true, true, true, false it is 3.
\<close>

theorem C1_bestOnDietSequence_is_streak_fold:
  "acc.bestOnDietSequence (reduce_meals ms) = spec_bestOnDietSequence (map is_on_diet ms)
   \<and> (\<exists>m. payload (fst (snd (get_metrics uid s))) = MetricsBody m
          \<and> metrics.bestOnDietSequence m
              = spec_bestOnDietSequence (map is_on_diet (user_meals_desc uid s))
          \<and> (map is_on_diet (user_meals_desc uid s) = [True, True, False, True, True, True, False]
               \<longrightarrow> metrics.bestOnDietSequence m = 3))"
proof -
  have "spec_bestOnDietSequence [True, True, False, True, True, True, False] = 3"
    by (simp add: spec_bestOnDietSequence_def spec_streak_step_def)
  then show ?thesis
    by (auto simp add: get_metrics_result reduce_meals_spec)
qed

theorem C1_bestOnDietSequence_witness:
  "map is_on_diet (user_meals_desc ''u-ana'' demo_store)
     = [True, True, False, True, True, True, False]
   \<and> (\<exists>m. payload (fst (snd (get_metrics ''u-ana'' demo_store))) = MetricsBody m
          \<and> metrics.bestOnDietSequence m = 3)"
  using C1_bestOnDietSequence_is_streak_fold [of "[]" "''u-ana''" demo_store] demo_flags_desc
  by auto

text \<open>
  The fold is the metric: started from a current streak no greater than the best one, it
  ends with the greatest of the best streak so far, the current streak extended by the
  leading run, and the longest run of the list.
\<close>

lemma leading_run_le_longest_run: "length (takeWhile (\<lambda>x. x) fs) \<le> longest_run fs"
  by (cases fs) simp_all

lemma spec_streak_step_pair:
  "spec_streak_step (c, b) f = (if f then (c + 1, max b (c + 1)) else (0, b))"
  by (simp add: spec_streak_step_def)

lemma foldl_spec_streak_step_longest_run:
  "c \<le> b \<Longrightarrow>
     snd (foldl spec_streak_step (c, b) fs)
       = max b (max (c + length (takeWhile (\<lambda>x. x) fs)) (longest_run fs))"
proof (induction fs arbitrary: c b)
  case Nil
  then show ?case by simp
next
  case (Cons f fs)
  show ?case
  proof (cases f)
    case True
    have "snd (foldl spec_streak_step (c + 1, max b (c + 1)) fs)
            = max (max b (c + 1)) (max (c + 1 + length (takeWhile (\<lambda>x. x) fs)) (longest_run fs))"
      by (rule Cons.IH) simp
    moreover have "foldl spec_streak_step (c, b) (f # fs)
            = foldl spec_streak_step (c + 1, max b (c + 1)) fs"
      using True by (simp only: foldl.simps spec_streak_step_pair if_True)
    ultimately show ?thesis
      using True by (simp only: takeWhile.simps if_True list.size longest_run.simps) (simp add: max_def)
  next
    case False
    have "snd (foldl spec_streak_step (0, b) fs)
            = max b (max (0 + length (takeWhile (\<lambda>x. x) fs)) (longest_run fs))"
      by (rule Cons.IH) simp
    moreover have "foldl spec_streak_step (c, b) (f # fs) = foldl spec_streak_step (0, b) fs"
      using False by (simp only: foldl.simps spec_streak_step_pair if_False)
    ultimately show ?thesis
      using False Cons.prems leading_run_le_longest_run [of fs]
      by (simp add: max_def)
  qed
qed

lemma spec_bestOnDietSequence_longest_run: "spec_bestOnDietSequence flags = longest_run flags"
  using foldl_spec_streak_step_longest_run [of 0 0 flags] leading_run_le_longest_run [of flags]
  by (simp add: spec_bestOnDietSequence_def)

text \<open>So the figure sent is the longest run of on-diet meals among the user's meals taken
  latest first.\<close>

lemma get_metrics_longest_run:
  "\<exists>m. payload (fst (snd (get_metrics uid s))) = MetricsBody m
      \<and> metrics.bestOnDietSequence m = longest_run (map is_on_diet (user_meals_desc uid s))"
  by (simp add: get_metrics_result reduce_meals_spec spec_bestOnDietSequence_longest_run)

text \<open>The list the handler reduces is the user's meals, and it is in descending date order.\<close>

lemma user_meals_desc_sorted:
  "sorted (map (\<lambda>m. - date m) (user_meals_desc uid s))"
  by (simp add: user_meals_desc_def order_by_date_desc_def)

lemma user_meals_desc_set:
  "set (user_meals_desc uid s) = {m \<in> set (meals s). user_id m = uid}"
  by (simp add: user_meals_desc_def order_by_date_desc_def)

lemma on_diet_user_meals_desc:
  "length (filter is_on_diet (user_meals_desc uid s))
     = length (filter (\<lambda>m. user_id m = uid \<and> is_on_diet m) (meals s))"
  by (simp add: user_meals_desc_def order_by_date_desc_def filter_sort)

lemma length_user_meals_desc:
  "length (user_meals_desc uid s) = length (filter (\<lambda>m. user_id m = uid) (meals s))"
  by (simp add: user_meals_desc_def order_by_date_desc_def)

text \<open>
  Neither counter of the \<open>reduce\<close> can outrun the number of on-diet meals read so far.
\<close>

lemma foldl_reduce_step_bound:
  "currentSequence (foldl reduce_step a ms) \<le> currentSequence a + length (filter is_on_diet ms)
   \<and> acc.bestOnDietSequence (foldl reduce_step a ms)
       \<le> max (acc.bestOnDietSequence a) (currentSequence a + length (filter is_on_diet ms))"
proof (induction ms arbitrary: a)
  case Nil
  show ?case by simp
next
  case (Cons m ms)
  let ?b = "reduce_step a m"
  have step: "currentSequence ?b = (if is_on_diet m then currentSequence a + 1 else 0)"
    "acc.bestOnDietSequence ?b = max (acc.bestOnDietSequence a) (currentSequence ?b)"
    by (simp_all add: reduce_step_def Let_def max_def)
  from Cons.IH [of ?b] show ?case
    by (simp add: step split: if_splits) linarith+
qed

lemma reduce_meals_le_on_diet:
  "acc.bestOnDietSequence (reduce_meals ms) \<le> length (filter is_on_diet ms)"
  using foldl_reduce_step_bound [of "\<lparr>bestOnDietSequence = 0, currentSequence = 0\<rparr>" ms]
  by (simp add: reduce_meals_def)

text \<open>
  Claim C8. For a user who owns no meal, the metrics handler sends \<open>totalMeals = 0\<close>,
  \<open>totalMealsOnDiet = 0\<close>, \<open>totalMealsOffDiet = 0\<close> and \<open>bestOnDietSequence = 0\<close>, with
  status 200.
\<close>

theorem C8_no_meals_all_zero:
  assumes "filter (\<lambda>m. user_id m = uid) (meals s) = []"
  shows "fst (get_metrics uid s) = Sent
     \<and> fst (snd (get_metrics uid s))
         = \<lparr>status = 200, cookies = [],
            payload = MetricsBody \<lparr>totalMeals = 0, totalMealsOnDiet = 0, totalMealsOffDiet = 0,
                                   bestOnDietSequence = 0\<rparr>\<rparr>"
proof -
  have none: "user_meals_desc uid s = []"
    using assms by (simp add: user_meals_desc_def order_by_date_desc_def)
  have "filter (\<lambda>m. user_id m = uid \<and> is_on_diet m) (meals s)
          = filter is_on_diet (filter (\<lambda>m. user_id m = uid) (meals s))"
    by (simp add: conj_commute)
  then have on: "filter (\<lambda>m. user_id m = uid \<and> is_on_diet m) (meals s) = []"
    using assms by simp
  have "filter (\<lambda>m. user_id m = uid \<and> \<not> is_on_diet m) (meals s)
          = filter (\<lambda>m. \<not> is_on_diet m) (filter (\<lambda>m. user_id m = uid) (meals s))"
    by (simp add: conj_commute)
  then have off: "filter (\<lambda>m. user_id m = uid \<and> \<not> is_on_diet m) (meals s) = []"
    using assms by simp
  show ?thesis
    by (simp add: get_metrics_result none on off reduce_meals_def)
qed

theorem C8_no_meals_witness:
  "filter (\<lambda>m. user_id m = ''u-eve'') (meals demo_store) = []
   \<and> fst (snd (get_metrics ''u-eve'' demo_store))
       = \<lparr>status = 200, cookies = [],
          payload = MetricsBody \<lparr>totalMeals = 0, totalMealsOnDiet = 0, totalMealsOffDiet = 0,
                                 bestOnDietSequence = 0\<rparr>\<rparr>"
proof -
  have h: "filter (\<lambda>m. user_id m = ''u-eve'') (meals demo_store) = []"
    by (simp add: demo_store_def demo_meal_def)
  show ?thesis using h C8_no_meals_all_zero [OF h] by simp
qed

text \<open>
  Claim C9. Whatever the store and the user, the metrics sent satisfy
  \<open>bestOnDietSequence \<le> totalMealsOnDiet \<le> totalMeals\<close>.
\<close>

theorem C9_best_le_on_diet_le_total:
  "\<exists>m. payload (fst (snd (get_metrics uid s))) = MetricsBody m
      \<and> metrics.bestOnDietSequence m \<le> totalMealsOnDiet m
      \<and> totalMealsOnDiet m \<le> totalMeals m"
proof -
  have "acc.bestOnDietSequence (reduce_meals (user_meals_desc uid s))
          \<le> length (filter (\<lambda>m. user_id m = uid \<and> is_on_diet m) (meals s))"
    using reduce_meals_le_on_diet [of "user_meals_desc uid s"]
    by (simp add: on_diet_user_meals_desc)
  moreover have "length (filter (\<lambda>m. user_id m = uid \<and> is_on_diet m) (meals s))
          \<le> length (user_meals_desc uid s)"
    using length_filter_le [of is_on_diet "user_meals_desc uid s"]
    by (simp add: on_diet_user_meals_desc)
  ultimately show ?thesis
    by (simp add: get_metrics_result)
qed

theorem C9_best_le_on_diet_le_total_witness:
  "payload (fst (snd (get_metrics ''u-ana'' demo_store)))
     = MetricsBody \<lparr>totalMeals = 7, totalMealsOnDiet = 5, totalMealsOffDiet = 2,
                    bestOnDietSequence = 3\<rparr>"
  using C9_best_le_on_diet_le_total [of "''u-ana''" demo_store]
  by (simp add: get_metrics_result reduce_meals_def reduce_step_def user_meals_desc_def
      order_by_date_desc_def demo_store_def demo_meal_def)

section \<open>Rows found and rows missed\<close>

lemma find_None_no_row: "(find w xs = None) = (\<not> (\<exists>m\<in>set xs. w m))"
  by (auto simp: find_None_iff)

lemma find_Some_row: "\<exists>m\<in>set xs. w m \<Longrightarrow> \<exists>r. find w xs = Some r"
  by (cases "find w xs") (auto simp: find_None_iff)

lemma update_no_match: "\<forall>m\<in>set xs. \<not> w m \<Longrightarrow> map (\<lambda>m. if w m then f m else m) xs = xs"
  by (induction xs) simp_all

lemma uuid_shape_bob: "uuid_shape ''c4d5e6f7-a8b9-4c0d-9e1f-2a3b4c5d6e7f''"
  by (simp add: uuid_shape_def hex_digit_def)

lemma uuid_shape_unknown: "uuid_shape ''00000000-0000-4000-8000-000000000000''"
  by (simp add: uuid_shape_def hex_digit_def)

lemma not_uuid_shape_42: "\<not> uuid_shape ''42''"
  by (simp add: uuid_shape_def)

lemma demo_meal_body_valid:
  "putMealBodySchema date_of_number demo_meal_body
     = Inr (''salad'', ''leaves and oil'', False, 1700000999000)"
  by (simp add: putMealBodySchema_def demo_meal_body_def date_of_number_def)

lemma demo_bad_body_invalid:
  "putMealBodySchema date_of_number demo_bad_body
     = Inl (ZodError [[''name''], [''description''], [''isOnDiet''], [''date'']])"
  by (simp add: putMealBodySchema_def demo_bad_body_def date_of_number_def issue_at_def)

section \<open>Get by id\<close>

lemma get_meal_result:
  assumes "is_uuid i"
  shows "get_meal is_uuid uid i s =
     (if \<exists>m\<in>set (meals s). meal_id m = i
      then (Sent,
            \<lparr>status = 200, cookies = [],
             payload = MealsBody (filter (\<lambda>m. user_id m = uid \<and> meal_id m = i) (meals s))\<rparr>,
            s\<lparr>issued := issued s @ [Query T_meals Q_first, Query T_meals Q_select]\<rparr>)
      else (Sent,
            \<lparr>status = 404, cookies = [], payload = ErrorBody ''Meal not found''\<rparr>,
            s\<lparr>issued := issued s @ [Query T_meals Q_first]\<rparr>))"
proof (cases "\<exists>m\<in>set (meals s). meal_id m = i")
  case True
  then obtain r where "find (\<lambda>m. meal_id m = i) (meals s) = Some r"
    using find_Some_row [of "meals s" "\<lambda>m. meal_id m = i"] by blast
  with True assms show ?thesis
    by (simp add: get_meal_def getMealParamsSchema_def knex_meals_first_def knex_meals_select_def
        issue_def send_def reply0_def)
next
  case False
  then have "find (\<lambda>m. meal_id m = i) (meals s) = None"
    by (simp add: find_None_no_row)
  with False assms show ?thesis
    by (simp add: get_meal_def getMealParamsSchema_def knex_meals_first_def issue_def send_def
        reply0_def)
qed

text \<open>
  Claim C2. For a Get-by-id request whose id is a valid UUID, the handler answers 404
  exactly when no row of the meals table, of any user, has that id, and then with the
  error body; otherwise it answers 200 with the rows that have that id and the caller's
  user id, a list that may be empty.
\<close>

theorem C2_get_meal_404_iff_no_such_id:
  assumes "is_uuid i"
  shows "(status (fst (snd (get_meal is_uuid uid i s))) = 404)
           = (\<not> (\<exists>m\<in>set (meals s). meal_id m = i))
     \<and> get_meal is_uuid uid i s =
         (if \<exists>m\<in>set (meals s). meal_id m = i
          then (Sent,
                \<lparr>status = 200, cookies = [],
                 payload = MealsBody (filter (\<lambda>m. user_id m = uid \<and> meal_id m = i) (meals s))\<rparr>,
                s\<lparr>issued := issued s @ [Query T_meals Q_first, Query T_meals Q_select]\<rparr>)
          else (Sent,
                \<lparr>status = 404, cookies = [], payload = ErrorBody ''Meal not found''\<rparr>,
                s\<lparr>issued := issued s @ [Query T_meals Q_first]\<rparr>))"
  using assms get_meal_result [of is_uuid i uid s] by simp

text \<open>
  Ana asks for a meal of Bob's and is sent 200 with no row; Bob asks for it and is sent
  the row; an id no row has is answered 404.
\<close>

theorem C2_get_meal_witness:
  "uuid_shape ''c4d5e6f7-a8b9-4c0d-9e1f-2a3b4c5d6e7f''
   \<and> fst (snd (get_meal uuid_shape ''u-ana'' ''c4d5e6f7-a8b9-4c0d-9e1f-2a3b4c5d6e7f'' demo_store))
       = \<lparr>status = 200, cookies = [], payload = MealsBody []\<rparr>
   \<and> fst (snd (get_meal uuid_shape ''u-bob'' ''c4d5e6f7-a8b9-4c0d-9e1f-2a3b4c5d6e7f'' demo_store))
       = \<lparr>status = 200, cookies = [],
          payload = MealsBody [demo_meal ''c4d5e6f7-a8b9-4c0d-9e1f-2a3b4c5d6e7f'' True
                                 1700000250000 ''u-bob'']\<rparr>
   \<and> uuid_shape ''00000000-0000-4000-8000-000000000000''
   \<and> fst (snd (get_meal uuid_shape ''u-ana'' ''00000000-0000-4000-8000-000000000000'' demo_store))
       = \<lparr>status = 404, cookies = [], payload = ErrorBody ''Meal not found''\<rparr>"
  using
    C2_get_meal_404_iff_no_such_id
      [of uuid_shape "''c4d5e6f7-a8b9-4c0d-9e1f-2a3b4c5d6e7f''" "''u-ana''" demo_store]
    C2_get_meal_404_iff_no_such_id
      [of uuid_shape "''c4d5e6f7-a8b9-4c0d-9e1f-2a3b4c5d6e7f''" "''u-bob''" demo_store]
    C2_get_meal_404_iff_no_such_id
      [of uuid_shape "''00000000-0000-4000-8000-000000000000''" "''u-ana''" demo_store]
    uuid_shape_bob uuid_shape_unknown
  by (simp add: demo_store_def demo_meal_def)

section \<open>Update\<close>

lemma put_meal_not_found:
  assumes "is_uuid i" and "\<not> (\<exists>m\<in>set (meals s). meal_id m = i)"
  shows "put_meal is_uuid to_time uid i body s =
     (Sent, \<lparr>status = 404, cookies = [], payload = ErrorBody ''Meal not found''\<rparr>,
      s\<lparr>issued := issued s @ [Query T_meals Q_first]\<rparr>)"
proof -
  have "find (\<lambda>m. meal_id m = i) (meals s) = None"
    using assms(2) by (simp add: find_None_no_row)
  with assms(1) show ?thesis
    by (simp add: put_meal_def putMealParamsSchema_def knex_meals_first_def issue_def send_def
        reply0_def)
qed

lemma put_meal_found:
  assumes "is_uuid i" and "\<exists>m\<in>set (meals s). meal_id m = i"
    and "putMealBodySchema to_time body = Inr (n, d, b, t)"
  shows "put_meal is_uuid to_time uid i body s =
     (Sent, \<lparr>status = 200, cookies = [], payload = Empty\<rparr>,
      s\<lparr>meals := map (\<lambda>m. if user_id m = uid \<and> meal_id m = i
                            then m\<lparr>meal_name := n, description := d, is_on_diet := b, date := t\<rparr>
                            else m) (meals s),
        issued := issued s @ [Query T_meals Q_first, Query T_meals Q_update]\<rparr>)"
proof -
  obtain r where "find (\<lambda>m. meal_id m = i) (meals s) = Some r"
    using assms(2) find_Some_row [of "meals s" "\<lambda>m. meal_id m = i"] by blast
  with assms(1,3) show ?thesis
    by (simp add: put_meal_def putMealParamsSchema_def knex_meals_first_def knex_meals_update_def
        issue_def send_def reply0_def)
qed

lemma put_meal_found_invalid_body:
  assumes "is_uuid i" and "\<exists>m\<in>set (meals s). meal_id m = i"
    and "putMealBodySchema to_time body = Inl e"
  shows "put_meal is_uuid to_time uid i body s =
     (Threw e, reply0, s\<lparr>issued := issued s @ [Query T_meals Q_first]\<rparr>)"
proof -
  obtain r where "find (\<lambda>m. meal_id m = i) (meals s) = Some r"
    using assms(2) find_Some_row [of "meals s" "\<lambda>m. meal_id m = i"] by blast
  with assms(1,3) show ?thesis
    by (simp add: put_meal_def putMealParamsSchema_def knex_meals_first_def issue_def)
qed

text \<open>
  Claim C3. An Update request (a valid UUID as id, a body the schema accepts) for an id
  that some row has, and that no row of the caller's has, is answered 200 with no body,
  and the store it leaves has the same rows: nothing has changed but the list of queries
  issued. With a body the schema rejects the rows are left unchanged as well.
\<close>

theorem C3_put_meal_other_owner_changes_nothing:
  assumes "is_uuid i"
    and "\<exists>m\<in>set (meals s). meal_id m = i"
    and "\<forall>m\<in>set (meals s). meal_id m = i \<longrightarrow> user_id m \<noteq> uid"
  shows "(putMealBodySchema to_time body = Inr (n, d, b, t) \<longrightarrow>
            put_meal is_uuid to_time uid i body s =
              (Sent, \<lparr>status = 200, cookies = [], payload = Empty\<rparr>,
               s\<lparr>issued := issued s @ [Query T_meals Q_first, Query T_meals Q_update]\<rparr>))
     \<and> meals (snd (snd (put_meal is_uuid to_time uid i body s))) = meals s
     \<and> users (snd (snd (put_meal is_uuid to_time uid i body s))) = users s"
proof (cases "putMealBodySchema to_time body")
  case (Inl e)
  then show ?thesis
    using assms(1,2) put_meal_found_invalid_body [of is_uuid i s to_time body e uid] by simp
next
  case (Inr v)
  obtain n' d' b' t' where v: "v = (n', d', b', t')"
    by (cases v) auto
  have "\<forall>m\<in>set (meals s). \<not> (user_id m = uid \<and> meal_id m = i)"
    using assms(3) by blast
  then have "map (\<lambda>m. if user_id m = uid \<and> meal_id m = i
                      then m\<lparr>meal_name := n', description := d', is_on_diet := b', date := t'\<rparr>
                      else m) (meals s) = meals s"
    by (rule update_no_match)
  then show ?thesis
    using Inr v assms(1,2) put_meal_found [of is_uuid i s to_time body n' d' b' t' uid] by simp
qed

text \<open>Ana sends a full, valid replacement for a meal of Bob's.\<close>

theorem C3_put_meal_other_owner_witness:
  "uuid_shape ''c4d5e6f7-a8b9-4c0d-9e1f-2a3b4c5d6e7f''
   \<and> putMealBodySchema date_of_number demo_meal_body
       = Inr (''salad'', ''leaves and oil'', False, 1700000999000)
   \<and> map user_id (filter (\<lambda>m. meal_id m = ''c4d5e6f7-a8b9-4c0d-9e1f-2a3b4c5d6e7f'')
         (meals demo_store)) = [''u-bob'']
   \<and> put_meal uuid_shape date_of_number ''u-ana'' ''c4d5e6f7-a8b9-4c0d-9e1f-2a3b4c5d6e7f''
         demo_meal_body demo_store
       = (Sent, \<lparr>status = 200, cookies = [], payload = Empty\<rparr>,
          demo_store\<lparr>issued := [Query T_meals Q_first, Query T_meals Q_update]\<rparr>)"
proof -
  have owner: "map user_id (filter (\<lambda>m. meal_id m = ''c4d5e6f7-a8b9-4c0d-9e1f-2a3b4c5d6e7f'')
                 (meals demo_store)) = [''u-bob'']"
    by (simp add: demo_store_def demo_meal_def)
  have ex: "\<exists>m\<in>set (meals demo_store). meal_id m = ''c4d5e6f7-a8b9-4c0d-9e1f-2a3b4c5d6e7f''"
    by (simp add: demo_store_def demo_meal_def)
  have other: "\<forall>m\<in>set (meals demo_store).
      meal_id m = ''c4d5e6f7-a8b9-4c0d-9e1f-2a3b4c5d6e7f'' \<longrightarrow> user_id m \<noteq> ''u-ana''"
    by (simp add: demo_store_def demo_meal_def)
  have empty: "issued demo_store = []"
    by (simp add: demo_store_def)
  show ?thesis
    using C3_put_meal_other_owner_changes_nothing
      [of uuid_shape "''c4d5e6f7-a8b9-4c0d-9e1f-2a3b4c5d6e7f''" demo_store "''u-ana''"
          date_of_number demo_meal_body "''salad''" "''leaves and oil''" False 1700000999000]
      uuid_shape_bob demo_meal_body_valid owner ex other empty
    by simp
qed

text \<open>
  Claim C10. In the Update handler the body is parsed only after the lookup by id: for an
  id that is a valid UUID and that no row has, the answer is 404 with the error body
  whatever the body is, so the body's validation error is never thrown, and the one query
  issued is that lookup.
\<close>

theorem C10_put_meal_unknown_id_is_404_whatever_the_body:
  assumes "is_uuid i" and "\<forall>m\<in>set (meals s). meal_id m \<noteq> i"
  shows "put_meal is_uuid to_time uid i body s =
     (Sent, \<lparr>status = 404, cookies = [], payload = ErrorBody ''Meal not found''\<rparr>,
      s\<lparr>issued := issued s @ [Query T_meals Q_first]\<rparr>)"
proof -
  have "\<not> (\<exists>m\<in>set (meals s). meal_id m = i)" using assms(2) by blast
  with assms(1) show ?thesis by (rule put_meal_not_found)
qed

text \<open>A body that fails the schema in all four fields, under an id no row has.\<close>

theorem C10_put_meal_unknown_id_witness:
  "uuid_shape ''00000000-0000-4000-8000-000000000000''
   \<and> filter (\<lambda>m. meal_id m = ''00000000-0000-4000-8000-000000000000'') (meals demo_store) = []
   \<and> putMealBodySchema date_of_number demo_bad_body
       = Inl (ZodError [[''name''], [''description''], [''isOnDiet''], [''date'']])
   \<and> put_meal uuid_shape date_of_number ''u-ana'' ''00000000-0000-4000-8000-000000000000''
         demo_bad_body demo_store
       = (Sent, \<lparr>status = 404, cookies = [], payload = ErrorBody ''Meal not found''\<rparr>,
          demo_store\<lparr>issued := [Query T_meals Q_first]\<rparr>)"
proof -
  have none: "filter (\<lambda>m. meal_id m = ''00000000-0000-4000-8000-000000000000'')
                (meals demo_store) = []"
    by (simp add: demo_store_def demo_meal_def)
  have absent: "\<forall>m\<in>set (meals demo_store). meal_id m \<noteq> ''00000000-0000-4000-8000-000000000000''"
    by (simp add: demo_store_def demo_meal_def)
  have empty: "issued demo_store = []"
    by (simp add: demo_store_def)
  show ?thesis
    using C10_put_meal_unknown_id_is_404_whatever_the_body
      [of uuid_shape "''00000000-0000-4000-8000-000000000000''" demo_store date_of_number
          "''u-ana''" demo_bad_body]
      uuid_shape_unknown none absent demo_bad_body_invalid empty
    by simp
qed

section \<open>Ids that are not UUIDs\<close>

text \<open>
  Claim C6. When the id of a Get, Update or Delete request is not a UUID, the handler
  throws the validation error and leaves the store as it was, the list of queries issued
  included: it has issued none.
\<close>

theorem C6_invalid_id_fails_before_any_query:
  assumes "\<not> is_uuid i"
  shows "get_meal is_uuid uid i s = (Threw (ZodError [[''id'']]), reply0, s)
     \<and> put_meal is_uuid to_time uid i body s = (Threw (ZodError [[''id'']]), reply0, s)
     \<and> delete_meal is_uuid uid i s = (Threw (ZodError [[''id'']]), reply0, s)"
  using assms
  by (simp add: get_meal_def put_meal_def delete_meal_def getMealParamsSchema_def
      putMealParamsSchema_def deleteMealParamsSchema_def)

theorem C6_invalid_id_witness:
  "\<not> uuid_shape ''42''
   \<and> get_meal uuid_shape ''u-ana'' ''42'' demo_store
       = (Threw (ZodError [[''id'']]), reply0, demo_store)
   \<and> put_meal uuid_shape date_of_number ''u-ana'' ''42'' demo_meal_body demo_store
       = (Threw (ZodError [[''id'']]), reply0, demo_store)
   \<and> delete_meal uuid_shape ''u-ana'' ''42'' demo_store
       = (Threw (ZodError [[''id'']]), reply0, demo_store)"
  using C6_invalid_id_fails_before_any_query
    [of uuid_shape "''42''" "''u-ana''" demo_store date_of_number demo_meal_body]
    not_uuid_shape_42
  by simp

section \<open>Create, then List\<close>

text \<open>The payloads the create schema accepts are the objects with the four fields.\<close>

lemma createMealBodySchema_valid:
  assumes "map_of props ''name'' = Some (JStr name)"
    and "map_of props ''description'' = Some (JStr descr)"
    and "map_of props ''isOnDiet'' = Some (JBool flag)"
    and "to_time (map_of props ''date'') = Some t"
  shows "createMealBodySchema to_time (Some (JObj props)) = Inr (name, descr, flag, t)"
  using assms by (simp add: createMealBodySchema_def)

lemma z_string_Some: "z_string v = Some x \<Longrightarrow> v = Some (JStr x)"
  by (cases v rule: z_string.cases) simp_all

lemma z_boolean_Some: "z_boolean v = Some x \<Longrightarrow> v = Some (JBool x)"
  by (cases v rule: z_boolean.cases) simp_all

lemma createMealBodySchema_Inr:
  assumes "createMealBodySchema to_time body = Inr (name, descr, flag, t)"
  shows "\<exists>props. body = Some (JObj props)
           \<and> map_of props ''name'' = Some (JStr name)
           \<and> map_of props ''description'' = Some (JStr descr)
           \<and> map_of props ''isOnDiet'' = Some (JBool flag)
           \<and> to_time (map_of props ''date'') = Some t"
  using assms
  by (auto simp: createMealBodySchema_def Let_def
      split: option.splits json.splits dest: z_string_Some z_boolean_Some)

lemma post_meal_result:
  assumes "createMealBodySchema to_time body = Inr (name, descr, flag, t)"
  shows "post_meal to_time fresh_id uid body s =
     (Sent, \<lparr>status = 201, cookies = [], payload = Empty\<rparr>,
      s\<lparr>meals := meals s @ [\<lparr>meal_id = fresh_id, meal_name = name, description = descr,
                                is_on_diet = flag, date = t, user_id = uid\<rparr>],
        issued := issued s @ [Query T_meals Q_insert]\<rparr>)"
  using assms
  by (simp add: post_meal_def knex_meals_insert_def issue_def send_def reply0_def)

lemma get_meals_result:
  "get_meals uid s =
     (Sent, \<lparr>status = 200, cookies = [],
             payload = MealsBody (filter (\<lambda>m. user_id m = uid) (meals s))\<rparr>,
      s\<lparr>issued := issued s @ [Query T_meals Q_select]\<rparr>)"
  by (simp add: get_meals_def knex_meals_select_def issue_def send_def reply0_def)

text \<open>
  Claim C7. For a valid Create payload (an object whose \<open>name\<close> and \<open>description\<close> are
  strings, whose \<open>isOnDiet\<close> is a boolean and whose \<open>date\<close> coerces to a Date of time value
  \<open>t\<close>), Create answers 201 with no body and appends one row to the meals table: the
  generated id, the caller's user id, the submitted name, description and diet flag, and
  \<open>t\<close> as the date. A List for the same user on the store Create leaves sends what a List
  sent before, followed by that row; when the generated id is fresh, it is the one row
  under that id.
\<close>

theorem C7_post_meal_inserts_one_row_listed_next:
  assumes "map_of props ''name'' = Some (JStr name)"
    and "map_of props ''description'' = Some (JStr descr)"
    and "map_of props ''isOnDiet'' = Some (JBool flag)"
    and "to_time (map_of props ''date'') = Some t"
  shows "post_meal to_time fresh_id uid (Some (JObj props)) s =
           (Sent, \<lparr>status = 201, cookies = [], payload = Empty\<rparr>,
            s\<lparr>meals := meals s @ [\<lparr>meal_id = fresh_id, meal_name = name, description = descr,
                                      is_on_diet = flag, date = t, user_id = uid\<rparr>],
              issued := issued s @ [Query T_meals Q_insert]\<rparr>)
     \<and> payload (fst (snd (get_meals uid
           (snd (snd (post_meal to_time fresh_id uid (Some (JObj props)) s))))))
         = MealsBody (filter (\<lambda>m. user_id m = uid) (meals s)
                        @ [\<lparr>meal_id = fresh_id, meal_name = name, description = descr,
                            is_on_diet = flag, date = t, user_id = uid\<rparr>])
     \<and> payload (fst (snd (get_meals uid s))) = MealsBody (filter (\<lambda>m. user_id m = uid) (meals s))
     \<and> ((\<forall>m\<in>set (meals s). meal_id m \<noteq> fresh_id) \<longrightarrow>
          filter (\<lambda>m. meal_id m = fresh_id)
            (meals (snd (snd (post_meal to_time fresh_id uid (Some (JObj props)) s))))
          = [\<lparr>meal_id = fresh_id, meal_name = name, description = descr,
              is_on_diet = flag, date = t, user_id = uid\<rparr>])"
proof -
  have valid: "createMealBodySchema to_time (Some (JObj props)) = Inr (name, descr, flag, t)"
    using assms by (rule createMealBodySchema_valid)
  have fresh: "(\<forall>m\<in>set (meals s). meal_id m \<noteq> fresh_id) \<longrightarrow>
      filter (\<lambda>m. meal_id m = fresh_id) (meals s) = []"
    by (simp add: filter_empty_conv)
  show ?thesis
    using fresh by (simp add: post_meal_result [OF valid] get_meals_result)
qed

text \<open>Bob, who has two meals, creates a third.\<close>

theorem C7_post_meal_witness:
  "post_meal date_of_number ''5e0c2a1b-7d3f-4a9e-b1c8-6f4d2e0a9b7c'' ''u-bob'' demo_meal_body demo_store
     = (Sent, \<lparr>status = 201, cookies = [], payload = Empty\<rparr>,
        demo_store\<lparr>meals := meals demo_store
                       @ [\<lparr>meal_id = ''5e0c2a1b-7d3f-4a9e-b1c8-6f4d2e0a9b7c'', meal_name = ''salad'',
                           description = ''leaves and oil'', is_on_diet = False,
                           date = 1700000999000, user_id = ''u-bob''\<rparr>],
                    issued := [Query T_meals Q_insert]\<rparr>)
   \<and> payload (fst (snd (get_meals ''u-bob'' demo_store)))
       = MealsBody [demo_meal ''c4d5e6f7-a8b9-4c0d-9e1f-2a3b4c5d6e7f'' True 1700000250000 ''u-bob'',
                    demo_meal ''12345678-90ab-4cde-8f01-234567890abc'' False 1700000350000 ''u-bob'']
   \<and> payload (fst (snd (get_meals ''u-bob''
         (snd (snd (post_meal date_of_number ''5e0c2a1b-7d3f-4a9e-b1c8-6f4d2e0a9b7c'' ''u-bob''
                      demo_meal_body demo_store))))))
       = MealsBody [demo_meal ''c4d5e6f7-a8b9-4c0d-9e1f-2a3b4c5d6e7f'' True 1700000250000 ''u-bob'',
                    demo_meal ''12345678-90ab-4cde-8f01-234567890abc'' False 1700000350000 ''u-bob'',
                    \<lparr>meal_id = ''5e0c2a1b-7d3f-4a9e-b1c8-6f4d2e0a9b7c'', meal_name = ''salad'',
                     description = ''leaves and oil'', is_on_diet = False,
                     date = 1700000999000, user_id = ''u-bob''\<rparr>]
   \<and> filter (\<lambda>m. meal_id m = ''5e0c2a1b-7d3f-4a9e-b1c8-6f4d2e0a9b7c'')
         (meals (snd (snd (post_meal date_of_number ''5e0c2a1b-7d3f-4a9e-b1c8-6f4d2e0a9b7c''
                             ''u-bob'' demo_meal_body demo_store))))
       = [\<lparr>meal_id = ''5e0c2a1b-7d3f-4a9e-b1c8-6f4d2e0a9b7c'', meal_name = ''salad'',
           description = ''leaves and oil'', is_on_diet = False,
           date = 1700000999000, user_id = ''u-bob''\<rparr>]"
proof -
  let ?props = "[(''name'', JStr ''salad''), (''description'', JStr ''leaves and oil''),
                 (''isOnDiet'', JBool False), (''date'', JNum (1700000999000::int))]"
  have f1: "map_of ?props ''name'' = Some (JStr ''salad'')" by simp
  have f2: "map_of ?props ''description'' = Some (JStr ''leaves and oil'')" by simp
  have f3: "map_of ?props ''isOnDiet'' = Some (JBool False)" by simp
  have f4: "date_of_number (map_of ?props ''date'') = Some 1700000999000"
    by (simp add: date_of_number_def)
  have listed: "filter (\<lambda>m. user_id m = ''u-bob'') (meals demo_store)
      = [demo_meal ''c4d5e6f7-a8b9-4c0d-9e1f-2a3b4c5d6e7f'' True 1700000250000 ''u-bob'',
         demo_meal ''12345678-90ab-4cde-8f01-234567890abc'' False 1700000350000 ''u-bob'']"
    by (simp add: demo_store_def demo_meal_def)
  have empty: "issued demo_store = []"
    by (simp add: demo_store_def)
  have unused: "\<forall>m\<in>set (meals demo_store). meal_id m \<noteq> ''5e0c2a1b-7d3f-4a9e-b1c8-6f4d2e0a9b7c''"
    by (simp add: demo_store_def demo_meal_def)
  note c7 = C7_post_meal_inserts_one_row_listed_next
        [of ?props "''salad''" "''leaves and oil''" False date_of_number 1700000999000
            "''5e0c2a1b-7d3f-4a9e-b1c8-6f4d2e0a9b7c''" "''u-bob''" demo_store, OF f1 f2 f3 f4]
  have a: "post_meal date_of_number ''5e0c2a1b-7d3f-4a9e-b1c8-6f4d2e0a9b7c'' ''u-bob''
             demo_meal_body demo_store
     = (Sent, \<lparr>status = 201, cookies = [], payload = Empty\<rparr>,
        demo_store\<lparr>meals := meals demo_store
                       @ [\<lparr>meal_id = ''5e0c2a1b-7d3f-4a9e-b1c8-6f4d2e0a9b7c'', meal_name = ''salad'',
                           description = ''leaves and oil'', is_on_diet = False,
                           date = 1700000999000, user_id = ''u-bob''\<rparr>],
                    issued := [Query T_meals Q_insert]\<rparr>)"
    using c7 [THEN conjunct1] by (simp add: demo_meal_body_def empty)
  have b: "payload (fst (snd (get_meals ''u-bob''
         (snd (snd (post_meal date_of_number ''5e0c2a1b-7d3f-4a9e-b1c8-6f4d2e0a9b7c'' ''u-bob''
                      demo_meal_body demo_store))))))
       = MealsBody [demo_meal ''c4d5e6f7-a8b9-4c0d-9e1f-2a3b4c5d6e7f'' True 1700000250000 ''u-bob'',
                    demo_meal ''12345678-90ab-4cde-8f01-234567890abc'' False 1700000350000 ''u-bob'',
                    \<lparr>meal_id = ''5e0c2a1b-7d3f-4a9e-b1c8-6f4d2e0a9b7c'', meal_name = ''salad'',
                     description = ''leaves and oil'', is_on_diet = False,
                     date = 1700000999000, user_id = ''u-bob''\<rparr>]"
    using c7 [THEN conjunct2, THEN conjunct1] by (simp only: demo_meal_body_def listed append.simps)
  have c: "payload (fst (snd (get_meals ''u-bob'' demo_store)))
       = MealsBody [demo_meal ''c4d5e6f7-a8b9-4c0d-9e1f-2a3b4c5d6e7f'' True 1700000250000 ''u-bob'',
                    demo_meal ''12345678-90ab-4cde-8f01-234567890abc'' False 1700000350000 ''u-bob'']"
    using c7 [THEN conjunct2, THEN conjunct2, THEN conjunct1] by (simp only: listed)
  have d: "filter (\<lambda>m. meal_id m = ''5e0c2a1b-7d3f-4a9e-b1c8-6f4d2e0a9b7c'')
         (meals (snd (snd (post_meal date_of_number ''5e0c2a1b-7d3f-4a9e-b1c8-6f4d2e0a9b7c''
                             ''u-bob'' demo_meal_body demo_store))))
       = [\<lparr>meal_id = ''5e0c2a1b-7d3f-4a9e-b1c8-6f4d2e0a9b7c'', meal_name = ''salad'',
           description = ''leaves and oil'', is_on_diet = False,
           date = 1700000999000, user_id = ''u-bob''\<rparr>]"
    using c7 [THEN conjunct2, THEN conjunct2, THEN conjunct2, THEN mp, OF unused]
    by (simp only: demo_meal_body_def)
  show ?thesis using a b c d by (simp only: simp_thms)
qed

section \<open>Register\<close>

lemma createUserBodySchema_valid:
  assumes "map_of props ''name'' = Some (JStr name)"
    and "map_of props ''email'' = Some (JStr mail)"
  shows "createUserBodySchema (Some (JObj props)) = Inr (name, mail)"
  using assms by (simp add: createUserBodySchema_def)

text \<open>The cookie is decided by the request's own cookie alone, before the body is read.\<close>

lemma post_user_cookies:
  "cookies (fst (snd (post_user fresh_session fresh_id c body s)))
     = (if c = None \<or> c = Some [] then [session_cookie fresh_session] else [])"
  by (simp add: post_user_def knex_users_first_def knex_users_insert_def issue_def send_def
      reply0_def split: option.splits sum.splits prod.splits)

lemma post_user_duplicate:
  assumes "createUserBodySchema body = Inr (name, mail)"
    and "\<exists>u\<in>set (users s). email u = mail"
  shows "fst (post_user fresh_session fresh_id c body s) = Sent
     \<and> status (fst (snd (post_user fresh_session fresh_id c body s))) = 400
     \<and> payload (fst (snd (post_user fresh_session fresh_id c body s)))
         = MessageBody ''User already exists!''
     \<and> snd (snd (post_user fresh_session fresh_id c body s))
         = s\<lparr>issued := issued s @ [Query T_users Q_first]\<rparr>"
proof -
  obtain r where "find (\<lambda>u. email u = mail) (users s) = Some r"
    using assms(2) find_Some_row [of "users s" "\<lambda>u. email u = mail"] by blast
  with assms(1) show ?thesis
    by (simp add: post_user_def knex_users_first_def issue_def send_def reply0_def
        split: option.splits)
qed

text \<open>A registration under an email no row has inserts the user, under the session
  token of the request or, without one, under the generated token.\<close>

lemma post_user_created:
  assumes "createUserBodySchema body = Inr (name, mail)"
    and "\<not> (\<exists>u\<in>set (users s). email u = mail)"
  shows "fst (post_user fresh_session fresh_id c body s) = Sent
     \<and> status (fst (snd (post_user fresh_session fresh_id c body s))) = 201
     \<and> payload (fst (snd (post_user fresh_session fresh_id c body s))) = Empty
     \<and> snd (snd (post_user fresh_session fresh_id c body s))
         = s\<lparr>users := users s
                 @ [\<lparr>usr_id = fresh_id, usr_name = name, email = mail,
                     session_id = (case c of None \<Rightarrow> fresh_session
                                   | Some v \<Rightarrow> if v = [] then fresh_session else v)\<rparr>],
             issued := issued s @ [Query T_users Q_first, Query T_users Q_insert]\<rparr>"
proof -
  have "find (\<lambda>u. email u = mail) (users s) = None"
    using assms(2) by (simp add: find_None_no_row)
  with assms(1) show ?thesis
    by (simp add: post_user_def knex_users_first_def knex_users_insert_def issue_def send_def
        reply0_def split: option.splits)
qed

text \<open>
  Claim C4, as amended. A Register request with a valid body whose email some row of the
  users table has is answered 400 with the message \<open>User already exists!\<close> (the
  exclamation mark is part of it); no row is inserted, the two tables are as they were,
  and the one query issued is the lookup by email.
\<close>

theorem C4_duplicate_email_is_400_and_no_insert:
  assumes "map_of props ''name'' = Some (JStr name)"
    and "map_of props ''email'' = Some (JStr mail)"
    and "\<exists>u\<in>set (users s). email u = mail"
  shows "fst (post_user fresh_session fresh_id c (Some (JObj props)) s) = Sent
     \<and> status (fst (snd (post_user fresh_session fresh_id c (Some (JObj props)) s))) = 400
     \<and> payload (fst (snd (post_user fresh_session fresh_id c (Some (JObj props)) s)))
         = MessageBody ''User already exists!''
     \<and> users (snd (snd (post_user fresh_session fresh_id c (Some (JObj props)) s))) = users s
     \<and> meals (snd (snd (post_user fresh_session fresh_id c (Some (JObj props)) s))) = meals s
     \<and> issued (snd (snd (post_user fresh_session fresh_id c (Some (JObj props)) s)))
         = issued s @ [Query T_users Q_first]"
  using post_user_duplicate [OF createUserBodySchema_valid [OF assms(1,2)] assms(3),
      of fresh_session fresh_id c]
  by simp

text \<open>Ana's email is registered a second time, from her own session.\<close>

theorem C4_duplicate_email_witness:
  "post_user ''d2c7a1f0-3b5e-4d6a-9c8b-7e6f5a4b3c2d'' ''8f6e4c2a-1b3d-4f5a-8b7c-9d0e1f2a3b4c''
       (Some ''s-ana'') demo_user_body demo_store
     = (Sent, \<lparr>status = 400, cookies = [], payload = MessageBody ''User already exists!''\<rparr>,
        demo_store\<lparr>issued := [Query T_users Q_first]\<rparr>)"
proof -
  let ?props = "[(''name'', JStr ''Ana Again''), (''email'', JStr ''ana@example.com'')]
                  :: (string \<times> int json) list"
  have f1: "map_of ?props ''name'' = Some (JStr ''Ana Again'')" by simp
  have f2: "map_of ?props ''email'' = Some (JStr ''ana@example.com'')" by simp
  have f3: "\<exists>u\<in>set (users demo_store). email u = ''ana@example.com''"
    by (simp add: demo_store_def)
  note c4 = C4_duplicate_email_is_400_and_no_insert [OF f1 f2 f3,
      of "''d2c7a1f0-3b5e-4d6a-9c8b-7e6f5a4b3c2d''" "''8f6e4c2a-1b3d-4f5a-8b7c-9d0e1f2a3b4c''"
         "Some ''s-ana''"]
  have "cookies (fst (snd (post_user ''d2c7a1f0-3b5e-4d6a-9c8b-7e6f5a4b3c2d''
          ''8f6e4c2a-1b3d-4f5a-8b7c-9d0e1f2a3b4c'' (Some ''s-ana'') demo_user_body demo_store))) = []"
    by (simp add: post_user_cookies)
  moreover have "issued demo_store = []" by (simp add: demo_store_def)
  ultimately show ?thesis
    using c4 unfolding demo_user_body_def
    by (cases "post_user ''d2c7a1f0-3b5e-4d6a-9c8b-7e6f5a4b3c2d''
          ''8f6e4c2a-1b3d-4f5a-8b7c-9d0e1f2a3b4c'' (Some ''s-ana'')
          (Some (JObj ?props)) demo_store") (auto intro: reply.equality store.equality)
qed

text \<open>
  Claim C4 as it is written names the message \<open>User already exists\<close>. On the request
  above the message sent is not that string: it ends in an exclamation mark.
\<close>

theorem C4_message_counterexample:
  "status (fst (snd (post_user ''d2c7a1f0-3b5e-4d6a-9c8b-7e6f5a4b3c2d''
       ''8f6e4c2a-1b3d-4f5a-8b7c-9d0e1f2a3b4c'' (Some ''s-ana'') demo_user_body demo_store))) = 400
   \<and> payload (fst (snd (post_user ''d2c7a1f0-3b5e-4d6a-9c8b-7e6f5a4b3c2d''
       ''8f6e4c2a-1b3d-4f5a-8b7c-9d0e1f2a3b4c'' (Some ''s-ana'') demo_user_body demo_store)))
       = MessageBody ''User already exists!''
   \<and> payload (fst (snd (post_user ''d2c7a1f0-3b5e-4d6a-9c8b-7e6f5a4b3c2d''
       ''8f6e4c2a-1b3d-4f5a-8b7c-9d0e1f2a3b4c'' (Some ''s-ana'') demo_user_body demo_store)))
       \<noteq> MessageBody ''User already exists''"
  by (simp add: post_user_def createUserBodySchema_def knex_users_first_def issue_def send_def
      reply0_def demo_user_body_def demo_store_def)

section \<open>The session cookie\<close>

lemma meals_handlers_cookies:
  "cookies (fst (snd (post_meal to_time fresh_id uid body s))) = []"
  "cookies (fst (snd (get_meals uid s))) = []"
  "cookies (fst (snd (get_metrics uid s))) = []"
  "cookies (fst (snd (get_meal is_uuid uid i s))) = []"
  "cookies (fst (snd (put_meal is_uuid to_time uid i body s))) = []"
  "cookies (fst (snd (delete_meal is_uuid uid i s))) = []"
  by (simp_all add: post_meal_def get_meals_result get_metrics_result get_meal_def put_meal_def
      delete_meal_def knex_meals_first_def knex_meals_select_def send_def reply0_def
      split: option.splits sum.splits prod.splits)

lemma get_users_cookies: "cookies (fst (snd (get_users c s))) = []"
  by (simp add: get_users_def knex_users_select_def send_def reply0_def split: option.splits)

text \<open>
  Claim C5, as amended. The \<open>sessionId\<close> cookie, with path \<open>/\<close> and max-age 604800
  seconds and the generated token as its value, is set on the reply to a Register request
  exactly when the request carries no session token (its \<open>sessionId\<close> cookie is absent or
  empty), whatever the body is and whatever becomes of the registration. No other handler
  sets a cookie.
\<close>

theorem C5_cookie_set_iff_request_has_no_session:
  "cookies (fst (snd (post_user fresh_session fresh_id c body s)))
     = (if c = None \<or> c = Some []
        then [\<lparr>cookie_name = ''sessionId'', cookie_value = fresh_session, path = ''/'',
               maxAge = 604800\<rparr>]
        else [])
   \<and> cookies (fst (snd (get_users c s))) = []
   \<and> cookies (fst (snd (post_meal to_time fresh_id uid body s))) = []
   \<and> cookies (fst (snd (get_meals uid s))) = []
   \<and> cookies (fst (snd (get_metrics uid s))) = []
   \<and> cookies (fst (snd (get_meal is_uuid uid i s))) = []
   \<and> cookies (fst (snd (put_meal is_uuid to_time uid i body s))) = []
   \<and> cookies (fst (snd (delete_meal is_uuid uid i s))) = []"
  by (simp add: post_user_cookies get_users_cookies meals_handlers_cookies session_cookie_def)

text \<open>
  A first registration without a session token sets the cookie; the same registration
  from Ana's session sets none; a request with an empty cookie and a body the schema
  rejects has the cookie set on its reply before the schema throws.
\<close>

theorem C5_cookie_witness:
  "cookies (fst (snd (post_user ''d2c7a1f0-3b5e-4d6a-9c8b-7e6f5a4b3c2d''
       ''8f6e4c2a-1b3d-4f5a-8b7c-9d0e1f2a3b4c'' None demo_new_user_body demo_store)))
     = [\<lparr>cookie_name = ''sessionId'', cookie_value = ''d2c7a1f0-3b5e-4d6a-9c8b-7e6f5a4b3c2d'',
         path = ''/'', maxAge = 604800\<rparr>]
   \<and> cookies (fst (snd (post_user ''d2c7a1f0-3b5e-4d6a-9c8b-7e6f5a4b3c2d''
       ''8f6e4c2a-1b3d-4f5a-8b7c-9d0e1f2a3b4c'' (Some ''s-ana'') demo_new_user_body demo_store)))
     = []
   \<and> cookies (fst (snd (post_user ''d2c7a1f0-3b5e-4d6a-9c8b-7e6f5a4b3c2d''
       ''8f6e4c2a-1b3d-4f5a-8b7c-9d0e1f2a3b4c'' (Some []) demo_bad_body demo_store)))
     = [\<lparr>cookie_name = ''sessionId'', cookie_value = ''d2c7a1f0-3b5e-4d6a-9c8b-7e6f5a4b3c2d'',
         path = ''/'', maxAge = 604800\<rparr>]"
  using C5_cookie_set_iff_request_has_no_session
      [of "''d2c7a1f0-3b5e-4d6a-9c8b-7e6f5a4b3c2d''" "''8f6e4c2a-1b3d-4f5a-8b7c-9d0e1f2a3b4c''"
          None demo_new_user_body demo_store]
    C5_cookie_set_iff_request_has_no_session
      [of "''d2c7a1f0-3b5e-4d6a-9c8b-7e6f5a4b3c2d''" "''8f6e4c2a-1b3d-4f5a-8b7c-9d0e1f2a3b4c''"
          "Some ''s-ana''" demo_new_user_body demo_store]
    C5_cookie_set_iff_request_has_no_session
      [of "''d2c7a1f0-3b5e-4d6a-9c8b-7e6f5a4b3c2d''" "''8f6e4c2a-1b3d-4f5a-8b7c-9d0e1f2a3b4c''"
          "Some []" demo_bad_body demo_store]
  by simp

text \<open>
  Claim C5 as it is written has no cookie set when the registration fails on a duplicate
  email. Ana's email is registered again by a request without a session token: the answer
  is 400, no user is inserted, and the cookie is set.
\<close>

theorem C5_cookie_counterexample:
  "status (fst (snd (post_user ''d2c7a1f0-3b5e-4d6a-9c8b-7e6f5a4b3c2d''
       ''8f6e4c2a-1b3d-4f5a-8b7c-9d0e1f2a3b4c'' None demo_user_body demo_store))) = 400
   \<and> payload (fst (snd (post_user ''d2c7a1f0-3b5e-4d6a-9c8b-7e6f5a4b3c2d''
       ''8f6e4c2a-1b3d-4f5a-8b7c-9d0e1f2a3b4c'' None demo_user_body demo_store)))
       = MessageBody ''User already exists!''
   \<and> users (snd (snd (post_user ''d2c7a1f0-3b5e-4d6a-9c8b-7e6f5a4b3c2d''
       ''8f6e4c2a-1b3d-4f5a-8b7c-9d0e1f2a3b4c'' None demo_user_body demo_store)))
       = users demo_store
   \<and> cookies (fst (snd (post_user ''d2c7a1f0-3b5e-4d6a-9c8b-7e6f5a4b3c2d''
       ''8f6e4c2a-1b3d-4f5a-8b7c-9d0e1f2a3b4c'' None demo_user_body demo_store)))
       = [\<lparr>cookie_name = ''sessionId'', cookie_value = ''d2c7a1f0-3b5e-4d6a-9c8b-7e6f5a4b3c2d'',
           path = ''/'', maxAge = 604800\<rparr>]"
  by (simp add: post_user_def createUserBodySchema_def knex_users_first_def issue_def send_def
      reply0_def session_cookie_def demo_user_body_def demo_store_def)

end
